theory Spec2Isabelle
  imports Main
begin

section \<open>Data model\<close>

text \<open>
  The client keeps three pieces of state: the \<^verbatim>\<open>AuthProvider\<close> hooks (\<^verbatim>\<open>user\<close>,
  \<^verbatim>\<open>token\<close>, \<^verbatim>\<open>loading\<close>), the \<^verbatim>\<open>ChatPage\<close> hooks (\<^verbatim>\<open>messages\<close>, \<^verbatim>\<open>input\<close>,
  \<^verbatim>\<open>loading\<close>, \<^verbatim>\<open>showHistory\<close>, \<^verbatim>\<open>chatHistory\<close>) and the browser globals they
  touch (\<^verbatim>\<open>localStorage\<close>, the router, the console). They are one record here, each
  operation taking the state and returning the updated one.
\<close>

record User =
  user_id :: int
  email :: string
  username :: string
  created_at :: string
  last_login :: "string option"

datatype role = RoleUser | RoleAssistant

text \<open>
  \<^verbatim>\<open>interface Message\<close>. \<^verbatim>\<open>id\<close> and \<^verbatim>\<open>sources\<close> are optional in the source; \<^verbatim>\<open>content\<close>
  is typed \<^verbatim>\<open>string\<close> but is filled from \<^verbatim>\<open>data.answer\<close> of an untyped JSON body, so
  \<open>None\<close> stands for JavaScript's \<^verbatim>\<open>undefined\<close>. A \<^verbatim>\<open>Date\<close> is its epoch milliseconds.
\<close>

record Message =
  msg_id :: "int option"
  role :: role
  content :: "string option"
  sources :: "string list option"
  timestamp :: int

record app =
  user :: "User option"
  token :: "string option"
  loading :: bool
  localStorage :: "string \<rightharpoonup> string"
  router :: "string list"
  console :: "string list"
  messages :: "Message list"
  input :: string
  chat_loading :: bool
  showHistory :: bool
  chatHistory :: "Message list"

text \<open>
  \<open>router\<close> is the sequence of \<^verbatim>\<open>router.push\<close> targets so far and \<open>console\<close> the
  sequence of \<^verbatim>\<open>console.error\<close> labels; \<open>chat_loading\<close> is the \<^verbatim>\<open>loading\<close> hook of
  \<^verbatim>\<open>ChatPage\<close>, renamed apart from the one of \<^verbatim>\<open>AuthProvider\<close>.
\<close>

subsection \<open>The remote service\<close>

text \<open>
  The outcome of one \<^verbatim>\<open>fetch\<close>: the promise rejects (\<open>Failed\<close>), or it resolves to a
  response with a status and a body; the body is \<open>None\<close> when \<^verbatim>\<open>res.json()\<close> rejects.
\<close>

datatype 'b fetched = Failed | Response nat "'b option"

definition ok :: "nat \<Rightarrow> bool" where
  "ok st = (200 \<le> st \<and> st \<le> 299)"

text \<open>
  The login and signup responses are read as untyped JSON (\<^verbatim>\<open>await res.json()\<close> is
  \<^verbatim>\<open>any\<close>), so their body is a JavaScript value: what \<^verbatim>\<open>JSON.parse\<close> can return, and
  \<^verbatim>\<open>undefined\<close> for a property that is missing. A number is given by the text that string
  conversion yields for it (\<^verbatim>\<open>"0"\<close> for both zeros); an object by its members in the
  order of the text.
\<close>

datatype js =
  JUndefined | JNull | JBool bool | JNum string | JStr string
  | JArr "js list" | JObj "(string \<times> js) list"

record chat_body =
  answer :: "string option"
  body_sources :: "string list option"

record wire_message =
  wire_id :: "int option"
  wire_role :: role
  wire_content :: "string option"
  wire_sources :: "string list option"
  wire_timestamp :: int

text \<open>
  How the service answers the requests of one operation. Each endpoint is keyed by what
  the client sends: the \<^verbatim>\<open>Authorization\<close> header and the JSON fields of the body.
\<close>

record server =
  auth_profile :: "string \<Rightarrow> User fetched"
  auth_login :: "string \<Rightarrow> string \<Rightarrow> js fetched"
  auth_signup :: "string \<Rightarrow> string \<Rightarrow> string \<Rightarrow> js fetched"
  chat_post :: "string \<Rightarrow> string \<Rightarrow> chat_body fetched"
  chat_history :: "string \<Rightarrow> wire_message list fetched"

subsection \<open>JavaScript values\<close>

text \<open>Truthiness of a \<^verbatim>\<open>string | null\<close>: \<^verbatim>\<open>null\<close>, \<^verbatim>\<open>undefined\<close> and \<^verbatim>\<open>""\<close> are falsy.\<close>

fun truthy :: "string option \<Rightarrow> bool" where
  "truthy None = False"
| "truthy (Some s) = (s \<noteq> [])"

text \<open>
  Truthiness of any value: \<^verbatim>\<open>undefined\<close>, \<^verbatim>\<open>null\<close>, \<^verbatim>\<open>false\<close>, zero, \<^verbatim>\<open>NaN\<close> and \<^verbatim>\<open>""\<close>
  are falsy; every array and every object is truthy.
\<close>

fun js_truthy :: "js \<Rightarrow> bool" where
  "js_truthy JUndefined = False"
| "js_truthy JNull = False"
| "js_truthy (JBool b) = b"
| "js_truthy (JNum r) = (r \<noteq> ''0'' \<and> r \<noteq> ''NaN'')"
| "js_truthy (JStr t) = (t \<noteq> [])"
| "js_truthy (JArr xs) = True"
| "js_truthy (JObj kvs) = True"

text \<open>\<^verbatim>\<open>a || b\<close>.\<close>

definition js_or :: "js \<Rightarrow> js \<Rightarrow> js" where
  "js_or a b = (if js_truthy a then a else b)"

text \<open>
  \<^verbatim>\<open>value.name\<close>, for a name that no built-in prototype defines (\<^verbatim>\<open>detail\<close>,
  \<^verbatim>\<open>access_token\<close>, \<^verbatim>\<open>refresh_token\<close>). On \<^verbatim>\<open>null\<close> and \<^verbatim>\<open>undefined\<close> it throws a
  \<^verbatim>\<open>TypeError\<close> (\<open>None\<close>); an object gives its member of that name, the last one when the
  text repeats the name; every other value, and an object without the member, gives
  \<^verbatim>\<open>undefined\<close>.
\<close>

fun get_prop :: "js \<Rightarrow> string \<Rightarrow> js option" where
  "get_prop JUndefined name = None"
| "get_prop JNull name = None"
| "get_prop (JObj kvs) name =
     Some (case map_of (rev kvs) name of None \<Rightarrow> JUndefined | Some v \<Rightarrow> v)"
| "get_prop (JBool b) name = Some JUndefined"
| "get_prop (JNum r) name = Some JUndefined"
| "get_prop (JStr t) name = Some JUndefined"
| "get_prop (JArr xs) name = Some JUndefined"

text \<open>\<^verbatim>\<open>Array.prototype.join\<close> with the default separator, on the converted elements.\<close>

fun join_comma :: "string list \<Rightarrow> string" where
  "join_comma [] = []"
| "join_comma [x] = x"
| "join_comma (x # y # ys) = x @ '','' @ join_comma (y # ys)"

text \<open>
  String conversion of a value (\<^verbatim>\<open>ToString\<close>), as the \<^verbatim>\<open>Error\<close> constructor, \<^verbatim>\<open>setItem\<close>
  and a template literal apply it. An array joins the conversions of its elements, with
  \<^verbatim>\<open>null\<close> and \<^verbatim>\<open>undefined\<close> elements empty. A parsed object is \<^verbatim>\<open>[object Object]\<close>,
  unless it has a member named \<^verbatim>\<open>toString\<close>: that member is not callable, and the
  conversion throws a \<^verbatim>\<open>TypeError\<close> (\<open>None\<close>).
\<close>

fun js_ToString :: "js \<Rightarrow> string option" where
  "js_ToString JUndefined = Some ''undefined''"
| "js_ToString JNull = Some ''null''"
| "js_ToString (JBool b) = Some (if b then ''true'' else ''false'')"
| "js_ToString (JNum r) = Some r"
| "js_ToString (JStr t) = Some t"
| "js_ToString (JArr xs) =
     map_option join_comma
       (those (map (\<lambda>x. if x = JNull then Some []
                         else if x = JUndefined then Some []
                         else js_ToString x) xs))"
| "js_ToString (JObj kvs) =
     (if ''toString'' \<in> set (map fst kvs) then None else Some ''[object Object]'')"

text \<open>String conversion, as \<^verbatim>\<open>setItem\<close> and a template literal apply it.\<close>

fun js_string :: "string option \<Rightarrow> string" where
  "js_string None = ''undefined''"
| "js_string (Some s) = s"

definition bearer :: "string option \<Rightarrow> string" where
  "bearer t = ''Bearer '' @ js_string t"

definition getItem :: "(string \<rightharpoonup> string) \<Rightarrow> string \<Rightarrow> string option" where
  "getItem st k = st k"

definition setItem :: "string \<Rightarrow> string \<Rightarrow> (string \<rightharpoonup> string) \<Rightarrow> (string \<rightharpoonup> string)" where
  "setItem k v st = st(k \<mapsto> v)"

definition removeItem :: "string \<Rightarrow> (string \<rightharpoonup> string) \<Rightarrow> (string \<rightharpoonup> string)" where
  "removeItem k st = st(k := None)"

text \<open>
  What a rejected promise carries: an \<^verbatim>\<open>Error\<close> the code built, with its message; the
  rejection of \<^verbatim>\<open>fetch\<close>; the rejection of \<^verbatim>\<open>res.json()\<close>; a \<^verbatim>\<open>TypeError\<close> thrown by
  a property read or a string conversion.
\<close>

datatype js_error = Error string | FetchRejected | JsonRejected | TypeError

text \<open>
  \<^verbatim>\<open>throw new Error(x)\<close>: the constructor converts a message other than \<^verbatim>\<open>undefined\<close> to
  a string, and the conversion's own throw takes the place of the new error.
\<close>

definition new_Error :: "js \<Rightarrow> js_error" where
  "new_Error x =
     (if x = JUndefined then Error []
      else case js_ToString x of None \<Rightarrow> TypeError | Some m \<Rightarrow> Error m)"

section \<open>Session store (\<^verbatim>\<open>AuthProvider\<close>)\<close>

text \<open>
  \<^verbatim>\<open>fetchProfile\<close>: the \<^verbatim>\<open>try\<close> block, its \<^verbatim>\<open>catch\<close> (taken when \<^verbatim>\<open>fetch\<close> or
  \<^verbatim>\<open>res.json()\<close> rejects) and the \<^verbatim>\<open>finally\<close> that runs after either.
\<close>

definition fetchProfile :: "server \<Rightarrow> string option \<Rightarrow> app \<Rightarrow> app" where
  "fetchProfile srv authToken s =
     (let s' = (case auth_profile srv (bearer authToken) of
                  Failed \<Rightarrow> s\<lparr>console := console s @ [''Failed to fetch profile:'']\<rparr>
                | Response st body \<Rightarrow>
                    if ok st then
                      (case body of
                         None \<Rightarrow> s\<lparr>console := console s @ [''Failed to fetch profile:'']\<rparr>
                       | Some userData \<Rightarrow> s\<lparr>user := Some userData\<rparr>)
                    else
                      s\<lparr>localStorage :=
                           removeItem ''refresh_token''
                             (removeItem ''access_token'' (localStorage s)),
                        token := None\<rparr>)
      in s'\<lparr>loading := False\<rparr>)"

text \<open>The mount effect of \<^verbatim>\<open>AuthProvider\<close> (the spec's \<^verbatim>\<open>restore\<close>).\<close>

definition restore :: "server \<Rightarrow> app \<Rightarrow> app" where
  "restore srv s =
     (let storedToken = getItem (localStorage s) ''access_token''
      in if truthy storedToken
         then fetchProfile srv storedToken (s\<lparr>token := storedToken\<rparr>)
         else s\<lparr>loading := False\<rparr>)"

text \<open>
  The token hook is typed \<^verbatim>\<open>string | null\<close>. What \<^verbatim>\<open>setToken(data.access_token)\<close> leaves
  in it: a string as it is, \<^verbatim>\<open>null\<close> and \<^verbatim>\<open>undefined\<close> as no token. Any other value is
  outside the hook's type: a falsy one is kept as no token, a truthy one as its string
  conversion.
\<close>

definition as_token :: "js \<Rightarrow> string option" where
  "as_token v =
     (case v of
        JStr t \<Rightarrow> Some t
      | JUndefined \<Rightarrow> None
      | JNull \<Rightarrow> None
      | _ \<Rightarrow> if js_truthy v then js_ToString v else None)"

text \<open>
  The statements that \<^verbatim>\<open>login\<close> and \<^verbatim>\<open>signup\<close> share after
  \<^verbatim>\<open>const data = await res.json()\<close>: the two \<^verbatim>\<open>setItem\<close> calls, \<^verbatim>\<open>setToken\<close>, the awaited
  \<^verbatim>\<open>fetchProfile\<close> and the push to \<^verbatim>\<open>/chat\<close>. Reading a property of a \<^verbatim>\<open>null\<close> body
  throws before anything is stored, and so does \<^verbatim>\<open>setItem\<close> when its value does not
  convert to a string; the second \<^verbatim>\<open>setItem\<close> throws after the first has stored its key.
  \<^verbatim>\<open>fetchProfile\<close> reads its argument in the template literal only, so it is handed the
  converted text.
\<close>

definition establish :: "server \<Rightarrow> js \<Rightarrow> app \<Rightarrow> (js_error + unit) \<times> app" where
  "establish srv data s =
     (case get_prop data ''access_token'' of
        None \<Rightarrow> (Inl TypeError, s)
      | Some a \<Rightarrow>
          (case js_ToString a of
             None \<Rightarrow> (Inl TypeError, s)
           | Some a_text \<Rightarrow>
               let s1 = s\<lparr>localStorage := setItem ''access_token'' a_text (localStorage s)\<rparr>
               in (case get_prop data ''refresh_token'' of
                     None \<Rightarrow> (Inl TypeError, s1)
                   | Some r \<Rightarrow>
                       (case js_ToString r of
                          None \<Rightarrow> (Inl TypeError, s1)
                        | Some r_text \<Rightarrow>
                            let s2 = s1\<lparr>localStorage :=
                                          setItem ''refresh_token'' r_text (localStorage s1),
                                        token := as_token a\<rparr>;
                                s3 = fetchProfile srv (Some a_text) s2
                            in (Inr (), s3\<lparr>router := router s3 @ [''/chat'']\<rparr>)))))"

definition login :: "server \<Rightarrow> string \<Rightarrow> string \<Rightarrow> app \<Rightarrow> (js_error + unit) \<times> app" where
  "login srv em password s =
     (case auth_login srv em password of
        Failed \<Rightarrow> (Inl FetchRejected, s)
      | Response st body \<Rightarrow>
          if \<not> ok st then
            (case body of
               None \<Rightarrow> (Inl JsonRejected, s)
             | Some err \<Rightarrow>
                 (case get_prop err ''detail'' of
                    None \<Rightarrow> (Inl TypeError, s)
                  | Some d \<Rightarrow> (Inl (new_Error (js_or d (JStr ''Login failed''))), s)))
          else
            (case body of
               None \<Rightarrow> (Inl JsonRejected, s)
             | Some data \<Rightarrow> establish srv data s))"

definition signup :: "server \<Rightarrow> string \<Rightarrow> string \<Rightarrow> string \<Rightarrow> app \<Rightarrow> (js_error + unit) \<times> app" where
  "signup srv em uname password s =
     (case auth_signup srv em uname password of
        Failed \<Rightarrow> (Inl FetchRejected, s)
      | Response st body \<Rightarrow>
          if \<not> ok st then
            (case body of
               None \<Rightarrow> (Inl JsonRejected, s)
             | Some err \<Rightarrow>
                 (case get_prop err ''detail'' of
                    None \<Rightarrow> (Inl TypeError, s)
                  | Some d \<Rightarrow> (Inl (new_Error (js_or d (JStr ''Signup failed''))), s)))
          else
            (case body of
               None \<Rightarrow> (Inl JsonRejected, s)
             | Some data \<Rightarrow> establish srv data s))"

definition logout :: "app \<Rightarrow> app" where
  "logout s =
     s\<lparr>localStorage :=
         removeItem ''refresh_token'' (removeItem ''access_token'' (localStorage s)),
       token := None,
       user := None,
       router := router s @ [''/auth'']\<rparr>"

text \<open>
  The state of a freshly mounted page over a given \<^verbatim>\<open>localStorage\<close>: the initial values
  of the \<^verbatim>\<open>useState\<close> hooks of \<^verbatim>\<open>AuthProvider\<close> and \<^verbatim>\<open>ChatPage\<close>; the greeting carries
  the time of the mount.
\<close>

definition greeting :: "int \<Rightarrow> Message" where
  "greeting now =
     \<lparr>msg_id = None, role = RoleAssistant,
      content = Some ''I am The People's Agent. I have access to the federal policy database.'',
      sources = Some [], timestamp = now\<rparr>"

definition mounted :: "(string \<rightharpoonup> string) \<Rightarrow> int \<Rightarrow> app" where
  "mounted st now =
     \<lparr>user = None, token = None, loading = True, localStorage = st, router = [],
      console = [], messages = [greeting now], input = [], chat_loading = False,
      showHistory = False, chatHistory = []\<rparr>"

section \<open>Route guard (\<^verbatim>\<open>ProtectedWrapper\<close>)\<close>

definition publicPaths :: "string list" where
  "publicPaths = [''/auth'']"

definition isPublicPath :: "string \<Rightarrow> bool" where
  "isPublicPath pathname = (pathname \<in> set publicPaths)"

text \<open>The \<^verbatim>\<open>useEffect\<close> of the wrapper: its only action is a \<^verbatim>\<open>router.push\<close>.\<close>

definition ProtectedWrapper_effect :: "string \<Rightarrow> app \<Rightarrow> app" where
  "ProtectedWrapper_effect pathname s =
     (if \<not> loading s then
        (if user s = None \<and> \<not> isPublicPath pathname then s\<lparr>router := router s @ [''/auth'']\<rparr>
         else if user s \<noteq> None \<and> isPublicPath pathname then s\<lparr>router := router s @ [''/'']\<rparr>
         else s)
      else s)"

text \<open>
  What the wrapper returns: the spinner, the children alone, \<^verbatim>\<open>null\<close>, or the children
  beside the sidebar.
\<close>

datatype rendered = Spinner | Children | Null | ChildrenWithSidebar

definition ProtectedWrapper_render :: "string \<Rightarrow> app \<Rightarrow> rendered" where
  "ProtectedWrapper_render pathname s =
     (if loading s then Spinner
      else if isPublicPath pathname then Children
      else if user s = None then Null
      else ChildrenWithSidebar)"

text \<open>The \<^verbatim>\<open>router.push\<close> targets an operation added.\<close>

definition pushed :: "(app \<Rightarrow> app) \<Rightarrow> app \<Rightarrow> string list" where
  "pushed f s = drop (length (router s)) (router (f s))"

section \<open>Conversation manager (\<^verbatim>\<open>ChatPage\<close>)\<close>

text \<open>
  \<^verbatim>\<open>String.prototype.trim\<close>. A \<open>char\<close> stands for a code unit below 256; the white
  space and line terminators of JavaScript in that range are tab, line feed, vertical
  tab, form feed, carriage return, space and the no-break space.
\<close>

definition is_space :: "char \<Rightarrow> bool" where
  "is_space c =
     (c \<in> set [CHR 0x09, CHR 0x0A, CHR 0x0B, CHR 0x0C, CHR 0x0D, CHR 0x20, CHR 0xA0])"

definition trim :: "string \<Rightarrow> string" where
  "trim s = rev (dropWhile is_space (rev (dropWhile is_space s)))"

text \<open>
  The object \<^verbatim>\<open>loadChatHistory\<close> builds from one element of the history response;
  \<^verbatim>\<open>msg.sources || []\<close> replaces a missing list (an array, even an empty one, is truthy),
  and \<^verbatim>\<open>new Date(msg.timestamp)\<close> is the instant the wire value denotes.
\<close>

definition of_wire :: "wire_message \<Rightarrow> Message" where
  "of_wire msg =
     \<lparr>msg_id = wire_id msg, role = wire_role msg, content = wire_content msg,
      sources = Some (case wire_sources msg of None \<Rightarrow> [] | Some xs \<Rightarrow> xs),
      timestamp = wire_timestamp msg\<rparr>"

definition loadChatHistory :: "server \<Rightarrow> app \<Rightarrow> app" where
  "loadChatHistory srv s =
     (if \<not> truthy (token s) then s
      else
        (case chat_history srv (bearer (token s)) of
           Failed \<Rightarrow> s\<lparr>console := console s @ [''Failed to load history:'']\<rparr>
         | Response st body \<Rightarrow>
             if ok st then
               (case body of
                  None \<Rightarrow> s\<lparr>console := console s @ [''Failed to load history:'']\<rparr>
                | Some data \<Rightarrow> s\<lparr>chatHistory := rev (map of_wire data)\<rparr>)
             else s))"

text \<open>
  \<^verbatim>\<open>send\<close>. \<open>sent\<close> and \<open>replied\<close> are the two readings of the clock (\<^verbatim>\<open>new Date()\<close>):
  when the user message is built, and when the answer or the error message is. The
  \<^verbatim>\<open>catch\<close> branch is taken when \<^verbatim>\<open>fetch\<close> or \<^verbatim>\<open>res.json()\<close> rejects; the \<^verbatim>\<open>finally\<close>
  block runs on every path that passed the guard, the early \<^verbatim>\<open>return\<close> included.
\<close>

definition send :: "server \<Rightarrow> int \<Rightarrow> int \<Rightarrow> app \<Rightarrow> app" where
  "send srv sent replied s =
     (if \<not> truthy (Some (trim (input s))) \<or> \<not> truthy (token s) then s
      else
        let userMsg = \<lparr>msg_id = None, role = RoleUser, content = Some (input s),
                       sources = None, timestamp = sent\<rparr>;
            s1 = s\<lparr>messages := messages s @ [userMsg], input := [], chat_loading := True\<rparr>;
            caught = s1\<lparr>messages := messages s1 @
                       [\<lparr>msg_id = None, role = RoleAssistant,
                         content = Some ''Error connecting to secure backend.'',
                         sources = None, timestamp = replied\<rparr>]\<rparr>;
            s2 = (case chat_post srv (bearer (token s)) (input s) of
                    Failed \<Rightarrow> caught
                  | Response st body \<Rightarrow>
                      if st = 401 then s1\<lparr>router := router s1 @ [''/auth'']\<rparr>
                      else
                        (case body of
                           None \<Rightarrow> caught
                         | Some data \<Rightarrow>
                             loadChatHistory srv
                               (s1\<lparr>messages := messages s1 @
                                     [\<lparr>msg_id = None, role = RoleAssistant,
                                       content = answer data,
                                       sources = body_sources data,
                                       timestamp = replied\<rparr>]\<rparr>)))
        in s2\<lparr>chat_loading := False\<rparr>)"

text \<open>
  \<^verbatim>\<open>Array.prototype.slice(start, end)\<close> on integers: a negative index counts from the
  end, and both are clamped to the array.
\<close>

definition slice :: "int \<Rightarrow> int \<Rightarrow> 'a list \<Rightarrow> 'a list" where
  "slice start fin xs =
     (let len = int (length xs);
          k = (if start < 0 then max (len + start) 0 else min start len);
          final = (if fin < 0 then max (len + fin) 0 else min fin len)
      in take (nat (final - k)) (drop (nat k) xs))"

definition loadHistoryIntoChat :: "int \<Rightarrow> Message list \<Rightarrow> app \<Rightarrow> app" where
  "loadHistoryIntoChat now historyMessages s =
     s\<lparr>messages := greeting now # historyMessages, showHistory := False\<rparr>"

text \<open>
  The \<^verbatim>\<open>onClick\<close> handler of entry \<open>idx\<close> of the history sidebar; \<open>idx\<close> is the index
  \<^verbatim>\<open>chatHistory.map\<close> hands to the entry.
\<close>

definition history_onClick :: "int \<Rightarrow> int \<Rightarrow> app \<Rightarrow> app" where
  "history_onClick now idx s =
     (let start = max 0 (idx - 5);
          fin = min (int (length (chatHistory s))) (idx + 6)
      in loadHistoryIntoChat now (slice start fin (chatHistory s)) s)"

text \<open>
  The window as the specification words it, for comparison with the handler: the
  elements at the indices \<open>max 0 (anchor - radius) \<le> i < min L (anchor + radius + 1)\<close>
  of the history, in order.
\<close>

definition windowHistory_spec :: "int \<Rightarrow> int \<Rightarrow> 'a list \<Rightarrow> 'a list" where
  "windowHistory_spec anchor radius history =
     map (\<lambda>i. history ! nat i)
       [max 0 (anchor - radius) .. min (int (length history)) (anchor + radius + 1) - 1]"

text \<open>
  A service that answers every request of an operation in one fixed way, whatever the
  request carries.
\<close>

definition answering ::
  "User fetched \<Rightarrow> js fetched \<Rightarrow> chat_body fetched \<Rightarrow> wire_message list fetched \<Rightarrow> server" where
  "answering p a c h =
     \<lparr>auth_profile = (\<lambda>_. p), auth_login = (\<lambda>_ _. a), auth_signup = (\<lambda>_ _ _. a),
      chat_post = (\<lambda>_ _. c), chat_history = (\<lambda>_. h)\<rparr>"

section \<open>Sample values\<close>

text \<open>Concrete data for the scenarios evaluated below.\<close>

definition alice :: User where
  "alice = \<lparr>user_id = 1, email = ''alice@example.org'', username = ''alice'',
            created_at = ''2024-01-01T00:00:00'', last_login = None\<rparr>"

text \<open>The login endpoint's success response carrying a pair of tokens.\<close>

definition granted :: "string \<Rightarrow> string \<Rightarrow> js fetched" where
  "granted a r =
     Response 200 (Some (JObj [(''access_token'', JStr a), (''refresh_token'', JStr r)]))"

text \<open>An error body \<^verbatim>\<open>{"detail": d}\<close>.\<close>

definition with_detail :: "js \<Rightarrow> js" where
  "with_detail d = JObj [(''detail'', d)]"

text \<open>The \<open>n\<close>-th message of a loaded history.\<close>

definition entry :: "int \<Rightarrow> Message" where
  "entry n = \<lparr>msg_id = Some n, role = (if even n then RoleUser else RoleAssistant),
              content = Some ''...'', sources = Some [], timestamp = n\<rparr>"

section \<open>Session store: results\<close>

text \<open>
  C4. \<^verbatim>\<open>fetchProfile\<close> leaves the readiness flag \<open>loading\<close> false whatever the profile
  request did: a success response, a non-success response, a body that does not parse,
  or a rejected \<^verbatim>\<open>fetch\<close>.
\<close>

theorem fetchProfile_clears_loading:
  "loading (fetchProfile srv authToken s) = False"
  by (simp add: fetchProfile_def Let_def)

text \<open>
  C7. A page mounted over a \<^verbatim>\<open>localStorage\<close> that holds an access token \<open>t\<close> sends \<open>t\<close>
  to the profile endpoint (the guard \<^verbatim>\<open>if (storedToken)\<close> lets every non-empty string
  through). When the endpoint answers with a non-success status, \<open>restore\<close> ends with
  \<open>user\<close> absent, the in-memory token cleared, both persisted tokens removed, and
  \<open>loading\<close> false.
\<close>

theorem restore_rejected_token:
  assumes "getItem st ''access_token'' = Some t" and "t \<noteq> []"
    and "auth_profile srv (bearer (Some t)) = Response code body" and "\<not> ok code"
  shows "user (restore srv (mounted st now)) = None
       \<and> token (restore srv (mounted st now)) = None
       \<and> getItem (localStorage (restore srv (mounted st now))) ''access_token'' = None
       \<and> getItem (localStorage (restore srv (mounted st now))) ''refresh_token'' = None
       \<and> loading (restore srv (mounted st now)) = False"
  using assms
  by (simp add: restore_def fetchProfile_def mounted_def getItem_def removeItem_def Let_def)

theorem restore_rejected_token_witness:
  "getItem [''access_token'' \<mapsto> ''stale'', ''refresh_token'' \<mapsto> ''old''] ''access_token''
     = Some ''stale''
 \<and> \<not> ok 401
 \<and> user (restore (answering (Response 401 None) Failed Failed Failed)
            (mounted [''access_token'' \<mapsto> ''stale'', ''refresh_token'' \<mapsto> ''old''] 0)) = None
 \<and> token (restore (answering (Response 401 None) Failed Failed Failed)
            (mounted [''access_token'' \<mapsto> ''stale'', ''refresh_token'' \<mapsto> ''old''] 0)) = None
 \<and> getItem (localStorage (restore (answering (Response 401 None) Failed Failed Failed)
            (mounted [''access_token'' \<mapsto> ''stale'', ''refresh_token'' \<mapsto> ''old''] 0)))
       ''access_token'' = None
 \<and> getItem (localStorage (restore (answering (Response 401 None) Failed Failed Failed)
            (mounted [''access_token'' \<mapsto> ''stale'', ''refresh_token'' \<mapsto> ''old''] 0)))
       ''refresh_token'' = None"
  using restore_rejected_token
          [of "[''access_token'' \<mapsto> ''stale'', ''refresh_token'' \<mapsto> ''old'']" "''stale''"
              "answering (Response 401 None) Failed Failed Failed" 401 None 0]
  by (simp add: getItem_def answering_def ok_def)

text \<open>
  The guard of the mount effect treats an empty stored token like a missing one: no
  request is made and \<^verbatim>\<open>localStorage\<close> is left as it is.
\<close>

lemma restore_without_token:
  assumes "\<not> truthy (getItem st ''access_token'')"
  shows "restore srv (mounted st now) = (mounted st now)\<lparr>loading := False\<rparr>"
  using assms by (simp add: restore_def mounted_def Let_def)

text \<open>
  Every outcome of \<open>login\<close> on a non-success response, with the state it leaves.
\<close>

lemma login_rejection:
  assumes "auth_login srv em password = Response st body" and "\<not> ok st"
  shows "login srv em password s =
           (Inl (case body of
                   None \<Rightarrow> JsonRejected
                 | Some err \<Rightarrow>
                     (case get_prop err ''detail'' of
                        None \<Rightarrow> TypeError
                      | Some d \<Rightarrow> new_Error (js_or d (JStr ''Login failed'')))), s)"
  using assms by (simp add: login_def split: option.splits)

text \<open>
  At error bodies outside the documented \<^verbatim>\<open>{detail}\<close> shape: a list as \<open>detail\<close> (the shape
  of a validation error) is converted to a string, a \<^verbatim>\<open>null\<close> body makes the property
  read throw, and a body that is not JSON makes \<^verbatim>\<open>res.json()\<close> reject.
\<close>

lemma login_rejection_samples:
  "fst (login (answering Failed
                 (Response 422 (Some (with_detail (JArr [JObj [(''msg'', JStr ''field required'')]]))))
                 Failed Failed) em password s) = Inl (Error ''[object Object]'')"
  "fst (login (answering Failed (Response 500 (Some JNull)) Failed Failed) em password s)
     = Inl TypeError"
  "fst (login (answering Failed (Response 500 None) Failed Failed) em password s)
     = Inl JsonRejected"
  by (simp_all add: login_def answering_def ok_def with_detail_def js_or_def new_Error_def)

text \<open>
  C8, as amended. When the login endpoint answers with a non-success status, \<open>login\<close>
  rejects, and the whole state (user, in-memory token, \<^verbatim>\<open>localStorage\<close>, router) is
  exactly what it was. When the body is a JSON value other than \<^verbatim>\<open>null\<close>, the error is
  \<^verbatim>\<open>Error(detail)\<close> if \<open>detail\<close> is a non-empty string, and \<^verbatim>\<open>Error("Login failed")\<close> if
  \<open>detail\<close> is missing or falsy: \<^verbatim>\<open>||\<close> takes its right operand for the empty string as
  for \<^verbatim>\<open>null\<close>, \<^verbatim>\<open>false\<close> and zero.
\<close>

theorem login_failure:
  assumes "auth_login srv em password = Response st body" and "\<not> ok st"
  shows "snd (login srv em password s) = s
       \<and> isl (fst (login srv em password s))
       \<and> (body = Some err \<and> get_prop err ''detail'' = Some (JStr m) \<and> m \<noteq> [] \<longrightarrow>
            fst (login srv em password s) = Inl (Error m))
       \<and> (body = Some err \<and> get_prop err ''detail'' = Some d \<and> \<not> js_truthy d \<longrightarrow>
            fst (login srv em password s) = Inl (Error ''Login failed''))"
  using login_rejection [OF assms, of s]
  by (auto simp add: js_or_def new_Error_def split: option.splits)

theorem login_failure_witness:
  "\<not> ok 401
 \<and> login (answering Failed
            (Response 401 (Some (with_detail (JStr ''Incorrect email or password''))))
            Failed Failed)
       ''alice@example.org'' ''wrong'' (mounted Map.empty 0)
     = (Inl (Error ''Incorrect email or password''), mounted Map.empty 0)
 \<and> login (answering Failed (Response 401 (Some (JObj []))) Failed Failed)
       ''alice@example.org'' ''wrong'' (mounted Map.empty 0)
     = (Inl (Error ''Login failed''), mounted Map.empty 0)"
proof -
  let ?s = "mounted Map.empty 0"
  let ?told = "with_detail (JStr ''Incorrect email or password'')"
  let ?srv1 = "answering Failed (Response 401 (Some ?told)) Failed Failed"
  let ?srv2 = "answering Failed (Response 401 (Some (JObj []))) Failed Failed"
  have st: "\<not> ok 401"
    by (simp add: ok_def)
  have r1: "auth_login ?srv1 ''alice@example.org'' ''wrong'' = Response 401 (Some ?told)"
    by (simp add: answering_def)
  have r2: "auth_login ?srv2 ''alice@example.org'' ''wrong'' = Response 401 (Some (JObj []))"
    by (simp add: answering_def)
  have d1: "get_prop ?told ''detail'' = Some (JStr ''Incorrect email or password'')"
    by (simp add: with_detail_def)
  have d2: "get_prop (JObj []) ''detail'' = Some JUndefined"
    by simp
  from login_failure [OF r1 st, where s = ?s and err = ?told
                        and m = "''Incorrect email or password''"] d1
  have "login ?srv1 ''alice@example.org'' ''wrong'' ?s
          = (Inl (Error ''Incorrect email or password''), ?s)"
    by (simp add: prod_eq_iff)
  moreover from login_failure [OF r2 st, where s = ?s and err = "JObj []" and d = JUndefined] d2
  have "login ?srv2 ''alice@example.org'' ''wrong'' ?s = (Inl (Error ''Login failed''), ?s)"
    by (simp add: prod_eq_iff)
  ultimately show ?thesis
    using st by simp
qed

text \<open>
  C8 as stated fails at a non-success response whose \<open>detail\<close> is the empty string: the
  message is the generic one, not the server's \<open>detail\<close>.
\<close>

theorem login_detail_counterexample:
  "fst (login (answering Failed (Response 401 (Some (with_detail (JStr [])))) Failed Failed)
          ''alice@example.org'' ''wrong'' (mounted Map.empty 0)) \<noteq> Inl (Error [])"
  by (simp add: login_def answering_def ok_def with_detail_def js_or_def new_Error_def)

text \<open>
  What the invalidation branch of \<^verbatim>\<open>fetchProfile\<close> does to any state: the token and
  the two persisted keys go, \<open>user\<close> stays whatever it was.
\<close>

lemma fetchProfile_rejected:
  assumes "auth_profile srv (bearer authToken) = Response st body" and "\<not> ok st"
  shows "fetchProfile srv authToken s =
           s\<lparr>localStorage :=
               removeItem ''refresh_token'' (removeItem ''access_token'' (localStorage s)),
             token := None, loading := False\<rparr>"
    and "user (fetchProfile srv authToken s) = user s"
  using assms by (simp_all add: fetchProfile_def Let_def)

text \<open>\<open>logout\<close>, the other invalidation path, clears the user together with the token.\<close>

lemma logout_clears_session:
  "user (logout s) = None \<and> token (logout s) = None
 \<and> getItem (localStorage (logout s)) ''access_token'' = None
 \<and> getItem (localStorage (logout s)) ''refresh_token'' = None"
  by (simp add: logout_def getItem_def removeItem_def)

text \<open>
  C1, evaluated where it fails. A first \<open>login\<close> succeeds and its profile fetch
  succeeds: \<open>user\<close> is set and the token is in memory. A second \<open>login\<close> is accepted,
  but its profile fetch is answered 401: the invalidation branch of \<^verbatim>\<open>fetchProfile\<close>
  clears the token and never calls \<^verbatim>\<open>setUser(null)\<close>, so the state ends with \<open>user\<close>
  present and no token.
\<close>

theorem second_login_rejected_profile:
  "user (snd (login (answering (Response 200 (Some alice)) (granted ''t1'' ''r1'') Failed Failed)
                ''alice@example.org'' ''pw'' (mounted Map.empty 0))) = Some alice
 \<and> token (snd (login (answering (Response 200 (Some alice)) (granted ''t1'' ''r1'') Failed Failed)
                ''alice@example.org'' ''pw'' (mounted Map.empty 0))) = Some ''t1''
 \<and> user (snd (login (answering (Response 401 None) (granted ''t2'' ''r2'') Failed Failed)
                ''alice@example.org'' ''pw''
                (snd (login (answering (Response 200 (Some alice)) (granted ''t1'' ''r1'') Failed Failed)
                   ''alice@example.org'' ''pw'' (mounted Map.empty 0))))) = Some alice
 \<and> token (snd (login (answering (Response 401 None) (granted ''t2'' ''r2'') Failed Failed)
                ''alice@example.org'' ''pw''
                (snd (login (answering (Response 200 (Some alice)) (granted ''t1'' ''r1'') Failed Failed)
                   ''alice@example.org'' ''pw'' (mounted Map.empty 0))))) = None"
  by (simp add: login_def establish_def as_token_def fetchProfile_def answering_def granted_def
      mounted_def ok_def setItem_def Let_def)

section \<open>Route guard: results\<close>

text \<open>
  C5. The guard's redirect and what it renders, case by case: while \<open>loading\<close>, no
  \<^verbatim>\<open>router.push\<close> and the spinner; not loading, no user, protected path: a push to
  \<^verbatim>\<open>/auth\<close> (a public path); not loading, a user, public path: a push to \<^verbatim>\<open>/\<close> (a
  protected path); a user on a protected path, or no user on a public path: no push and
  the children rendered. The effect changes nothing but the router, and both the pushes
  and the rendering are the same in any two states that agree on \<open>user\<close> and \<open>loading\<close>.
\<close>

theorem ProtectedWrapper_decision:
  "(loading s \<longrightarrow> pushed (ProtectedWrapper_effect pathname) s = []
        \<and> ProtectedWrapper_render pathname s = Spinner)
 \<and> (\<not> loading s \<and> user s = None \<and> \<not> isPublicPath pathname \<longrightarrow>
        pushed (ProtectedWrapper_effect pathname) s = [''/auth''] \<and> isPublicPath ''/auth'')
 \<and> (\<not> loading s \<and> user s \<noteq> None \<and> isPublicPath pathname \<longrightarrow>
        pushed (ProtectedWrapper_effect pathname) s = [''/''] \<and> \<not> isPublicPath ''/'')
 \<and> (\<not> loading s \<and> user s \<noteq> None \<and> \<not> isPublicPath pathname \<longrightarrow>
        pushed (ProtectedWrapper_effect pathname) s = []
        \<and> ProtectedWrapper_render pathname s = ChildrenWithSidebar)
 \<and> (\<not> loading s \<and> user s = None \<and> isPublicPath pathname \<longrightarrow>
        pushed (ProtectedWrapper_effect pathname) s = []
        \<and> ProtectedWrapper_render pathname s = Children)
 \<and> ProtectedWrapper_effect pathname s =
       s\<lparr>router := router s @ pushed (ProtectedWrapper_effect pathname) s\<rparr>
 \<and> (user s' = user s \<and> loading s' = loading s \<longrightarrow>
        pushed (ProtectedWrapper_effect pathname) s' = pushed (ProtectedWrapper_effect pathname) s
        \<and> ProtectedWrapper_render pathname s' = ProtectedWrapper_render pathname s)"
  by (simp add: ProtectedWrapper_effect_def ProtectedWrapper_render_def pushed_def
      isPublicPath_def publicPaths_def)

theorem ProtectedWrapper_decision_witness:
  "pushed (ProtectedWrapper_effect ''/chat'') (mounted Map.empty 0) = []
 \<and> ProtectedWrapper_render ''/chat'' (mounted Map.empty 0) = Spinner
 \<and> pushed (ProtectedWrapper_effect ''/chat'') ((mounted Map.empty 0)\<lparr>loading := False\<rparr>)
     = [''/auth'']
 \<and> pushed (ProtectedWrapper_effect ''/auth'')
       ((mounted Map.empty 0)\<lparr>loading := False, user := Some alice\<rparr>) = [''/'']
 \<and> ProtectedWrapper_render ''/chat''
       ((mounted Map.empty 0)\<lparr>loading := False, user := Some alice\<rparr>) = ChildrenWithSidebar
 \<and> ProtectedWrapper_render ''/auth'' ((mounted Map.empty 0)\<lparr>loading := False\<rparr>) = Children"
  using ProtectedWrapper_decision
          [of "mounted Map.empty 0" "''/chat''" "mounted Map.empty 0"]
        ProtectedWrapper_decision
          [of "(mounted Map.empty 0)\<lparr>loading := False\<rparr>" "''/chat''" "mounted Map.empty 0"]
        ProtectedWrapper_decision
          [of "(mounted Map.empty 0)\<lparr>loading := False, user := Some alice\<rparr>" "''/auth''"
              "mounted Map.empty 0"]
        ProtectedWrapper_decision
          [of "(mounted Map.empty 0)\<lparr>loading := False, user := Some alice\<rparr>" "''/chat''"
              "mounted Map.empty 0"]
        ProtectedWrapper_decision
          [of "(mounted Map.empty 0)\<lparr>loading := False\<rparr>" "''/auth''" "mounted Map.empty 0"]
  by (simp add: mounted_def isPublicPath_def publicPaths_def)

section \<open>Conversation manager: results\<close>

subsection \<open>The history window\<close>

lemma slice_in_range:
  assumes "0 \<le> a" and "a \<le> b" and "b \<le> int (length xs)"
  shows "slice a b xs = take (nat (b - a)) (drop (nat a) xs)"
  using assms by (simp add: slice_def Let_def)

lemma window_as_take_drop:
  assumes "0 \<le> lo" and "lo \<le> hi" and "hi \<le> int (length xs)"
  shows "map (\<lambda>i. xs ! nat i) [lo .. hi - 1] = take (nat (hi - lo)) (drop (nat lo) xs)"
proof (rule nth_equalityI)
  show "length (map (\<lambda>i. xs ! nat i) [lo .. hi - 1]) =
        length (take (nat (hi - lo)) (drop (nat lo) xs))"
    using assms by simp
next
  fix k
  assume "k < length (map (\<lambda>i. xs ! nat i) [lo .. hi - 1])"
  then have k: "int k < hi - lo"
    using assms by simp
  then have "[lo .. hi - 1] ! k = lo + int k"
    by simp
  moreover have "nat (lo + int k) = nat lo + k"
    using assms by (simp add: nat_add_distrib)
  ultimately show "map (\<lambda>i. xs ! nat i) [lo .. hi - 1] ! k =
                   take (nat (hi - lo)) (drop (nat lo) xs) ! k"
    using k assms by simp
qed

text \<open>
  C2, as amended. The handler has no radius parameter: it is the window of radius 5.
  For a history of length \<open>L\<close> and every \<open>0 \<le> idx < L\<close>, clicking entry \<open>idx\<close> replaces
  the live transcript with the greeting followed, in order, by the history's elements
  at the indices \<open>max 0 (idx - 5) \<le> i < min L (idx + 6)\<close>, closes the sidebar and
  changes nothing else; the slice has \<open>min L (idx + 5 + 1) - max 0 (idx - 5)\<close>
  elements.
\<close>

theorem history_onClick_window:
  assumes "0 \<le> idx" and "idx < int (length (chatHistory s))"
  shows "history_onClick now idx s =
           s\<lparr>messages := greeting now # windowHistory_spec idx 5 (chatHistory s),
             showHistory := False\<rparr>
       \<and> int (length (windowHistory_spec idx 5 (chatHistory s))) =
           min (int (length (chatHistory s))) (idx + 5 + 1) - max 0 (idx - 5)"
proof -
  let ?h = "chatHistory s"
  let ?lo = "max 0 (idx - 5)"
  let ?hi = "min (int (length ?h)) (idx + 5 + 1)"
  have lo: "0 \<le> ?lo" and lohi: "?lo \<le> ?hi" and hi: "?hi \<le> int (length ?h)"
    using assms by auto
  have sl: "slice ?lo ?hi ?h = take (nat (?hi - ?lo)) (drop (nat ?lo) ?h)"
    by (rule slice_in_range [OF lo lohi hi])
  have w: "windowHistory_spec idx 5 ?h = take (nat (?hi - ?lo)) (drop (nat ?lo) ?h)"
    unfolding windowHistory_spec_def using window_as_take_drop [OF lo lohi hi] by simp
  have "history_onClick now idx s =
          s\<lparr>messages := greeting now # windowHistory_spec idx 5 ?h, showHistory := False\<rparr>"
    using sl w by (simp add: history_onClick_def loadHistoryIntoChat_def Let_def add.commute)
  moreover have "int (length (windowHistory_spec idx 5 ?h)) = ?hi - ?lo"
    unfolding windowHistory_spec_def using lohi by simp
  ultimately show ?thesis by simp
qed

theorem history_onClick_window_witness:
  "(0::int) \<le> 1 \<and> 1 < int (length (map entry [0..2]))
 \<and> messages (history_onClick 7 1 ((mounted Map.empty 0)\<lparr>chatHistory := map entry [0..2]\<rparr>))
     = [greeting 7, entry 0, entry 1, entry 2]"
  using history_onClick_window
          [of 1 "(mounted Map.empty 0)\<lparr>chatHistory := map entry [0..2]\<rparr>" 7]
  by (simp add: mounted_def windowHistory_spec_def upto.simps)

text \<open>
  C2 as stated fails for a radius other than 5. On a history of twelve messages, a
  click on entry 5 yields the greeting and the eleven messages 0 to 10, whereas the
  window of radius 1 around 5 is the three messages 4 to 6.
\<close>

theorem window_radius_counterexample:
  "messages (history_onClick 0 5 ((mounted Map.empty 0)\<lparr>chatHistory := map entry [0..11]\<rparr>))
     \<noteq> greeting 0 #
         windowHistory_spec 5 1
           (chatHistory ((mounted Map.empty 0)\<lparr>chatHistory := map entry [0..11]\<rparr>))"
proof -
  have "length (messages (history_onClick 0 5
                  ((mounted Map.empty 0)\<lparr>chatHistory := map entry [0..11]\<rparr>))) = 12"
    by (simp add: history_onClick_def loadHistoryIntoChat_def slice_def mounted_def Let_def)
  moreover have "length (greeting 0 #
                   windowHistory_spec 5 1
                     (chatHistory ((mounted Map.empty 0)\<lparr>chatHistory := map entry [0..11]\<rparr>))) = 4"
    by (simp add: windowHistory_spec_def mounted_def)
  ultimately show ?thesis by auto
qed

subsection \<open>Sending\<close>

text \<open>
  C6. With an input that is not blank and a token in memory, a chat request answered
  with status 401 makes \<open>send\<close> push \<^verbatim>\<open>/auth\<close> and stop: the transcript is the old one
  followed by the user message built from the input and nothing else, the input field
  is emptied, the loading flag is false again, and no other part of the state changes.
\<close>

theorem send_unauthorized:
  assumes "trim (input s) \<noteq> []" and "token s = Some t" and "t \<noteq> []"
    and "chat_post srv (bearer (Some t)) (input s) = Response 401 body"
  shows "send srv sent replied s =
           s\<lparr>messages := messages s @
                [\<lparr>msg_id = None, role = RoleUser, content = Some (input s),
                  sources = None, timestamp = sent\<rparr>],
             input := [], chat_loading := False, router := router s @ [''/auth'']\<rparr>"
  using assms by (simp add: send_def Let_def)

theorem send_unauthorized_witness:
  "trim ''hello'' \<noteq> []
 \<and> messages (send (answering Failed Failed (Response 401 None) Failed) 1 2
       ((mounted Map.empty 0)\<lparr>user := Some alice, token := Some ''t1'', input := ''hello''\<rparr>))
     = [greeting 0,
        \<lparr>msg_id = None, role = RoleUser, content = Some ''hello'', sources = None,
         timestamp = 1\<rparr>]
 \<and> router (send (answering Failed Failed (Response 401 None) Failed) 1 2
       ((mounted Map.empty 0)\<lparr>user := Some alice, token := Some ''t1'', input := ''hello''\<rparr>))
     = [''/auth'']"
  using send_unauthorized
          [of "(mounted Map.empty 0)\<lparr>user := Some alice, token := Some ''t1'', input := ''hello''\<rparr>"
              "''t1''" "answering Failed Failed (Response 401 None) Failed" None 1 2]
  by (simp add: answering_def mounted_def trim_def is_space_def)

text \<open>
  The \<^verbatim>\<open>catch\<close> branch of \<open>send\<close>: when \<^verbatim>\<open>fetch\<close> rejects, or the status is not 401 and
  the body does not parse, the synthetic error message follows the user message and the
  loading flag is cleared.
\<close>

lemma send_caught:
  assumes "trim (input s) \<noteq> []" and "truthy (token s)"
    and "chat_post srv (bearer (token s)) (input s) = Failed
       \<or> (\<exists>st. chat_post srv (bearer (token s)) (input s) = Response st None \<and> st \<noteq> 401)"
  shows "send srv sent replied s =
           s\<lparr>messages := messages s @
                [\<lparr>msg_id = None, role = RoleUser, content = Some (input s),
                  sources = None, timestamp = sent\<rparr>,
                 \<lparr>msg_id = None, role = RoleAssistant,
                  content = Some ''Error connecting to secure backend.'',
                  sources = None, timestamp = replied\<rparr>],
             input := [], chat_loading := False\<rparr>"
  using assms by (auto simp add: send_def Let_def)

text \<open>Whatever the service does, \<open>send\<close> never leaves the loading flag set.\<close>

lemma send_clears_loading:
  assumes "\<not> chat_loading s"
  shows "\<not> chat_loading (send srv sent replied s)"
  using assms by (simp add: send_def Let_def)

text \<open>
  C3, evaluated where it fails. The chat request is answered with status 500 and a JSON
  body that has no \<open>answer\<close> (an error body). \<open>send\<close> tests the status for 401 only, so it
  takes the success path: the message it appends is an assistant message whose content
  is \<^verbatim>\<open>undefined\<close>, not the synthetic error message of the \<^verbatim>\<open>catch\<close> branch. The loading
  flag is cleared.
\<close>

theorem send_error_status_with_body:
  "messages (send (answering Failed Failed
                     (Response 500 (Some \<lparr>answer = None, body_sources = None\<rparr>)) Failed)
       1 2 ((mounted Map.empty 0)\<lparr>user := Some alice, token := Some ''t1'', input := ''hello''\<rparr>))
   = [greeting 0,
      \<lparr>msg_id = None, role = RoleUser, content = Some ''hello'', sources = None, timestamp = 1\<rparr>,
      \<lparr>msg_id = None, role = RoleAssistant, content = None, sources = None, timestamp = 2\<rparr>]
 \<and> chat_loading (send (answering Failed Failed
                     (Response 500 (Some \<lparr>answer = None, body_sources = None\<rparr>)) Failed)
       1 2 ((mounted Map.empty 0)\<lparr>user := Some alice, token := Some ''t1'', input := ''hello''\<rparr>))
   = False"
  by (simp add: send_def loadChatHistory_def answering_def mounted_def trim_def is_space_def
      Let_def)

theorem send_error_status_with_body_witness:
  "truthy (Some (trim ''hello'')) \<and> truthy (Some ''t1'')
 \<and> content (last (messages (send (answering Failed Failed
                     (Response 500 (Some \<lparr>answer = None, body_sources = None\<rparr>)) Failed)
       1 2 ((mounted Map.empty 0)\<lparr>user := Some alice, token := Some ''t1'', input := ''hello''\<rparr>))))
     \<noteq> Some ''Error connecting to secure backend.''"
  using send_error_status_with_body
  by (simp add: trim_def is_space_def)

subsection \<open>Loading the history\<close>



text \<open>
  C10. When the history request is answered with any non-success status, whatever the
  body, \<open>loadChatHistory\<close> returns the state it was given: the stored history, the
  transcript, the router (no redirect) and the console (nothing logged) are unchanged.
\<close>

theorem loadChatHistory_not_ok:
  assumes "chat_history srv (bearer (token s)) = Response st body" and "\<not> ok st"
  shows "loadChatHistory srv s = s"
  using assms by (simp add: loadChatHistory_def)

theorem loadChatHistory_not_ok_witness:
  "\<not> ok 401
 \<and> loadChatHistory (answering Failed Failed Failed (Response 401 (Some [])))
       ((mounted Map.empty 0)\<lparr>user := Some alice, token := Some ''t1'', chatHistory := [entry 0]\<rparr>)
     = (mounted Map.empty 0)\<lparr>user := Some alice, token := Some ''t1'', chatHistory := [entry 0]\<rparr>"
  using loadChatHistory_not_ok
          [of "answering Failed Failed Failed (Response 401 (Some []))"
              "(mounted Map.empty 0)\<lparr>user := Some alice, token := Some ''t1'', chatHistory := [entry 0]\<rparr>"
              401 "Some []"]
  by (simp add: answering_def ok_def)

end
